theory Spec2Isabelle
  imports Main "HOL-Library.AList" "HOL-Library.Sublist"
begin

section \<open>Exceptions\<close>

text \<open>
  Every exception that \<^verbatim>\<open>repobuild.py\<close> raises itself, or lets through from the
  library calls it makes, is a value of \<open>error\<close>.  A function that can raise returns
  \<open>error + 'a\<close> with \<open>Inl\<close> for the exception.  \<open>NotModelled\<close> marks inputs of a
  library routine that the embedding does not cover; it is never a Python exception.
\<close>

datatype error =
    ValueError string
  | KeyError string
  | IndexError
  | TypeError
  | AssertionError
  | URLError
  | FileNotFoundError "string list"
  | FileExistsError "string list"
  | NotADirectoryError "string list"
  | IsADirectoryError "string list"
  | CrossDeviceLink "string list" "string list"
  | BuildError
  | ContainerError
  | APIError
  | PermissionError "string list"
  | SameFileError "string list"
  | NotModelled string

section \<open>Package descriptor\<close>

text \<open>
  \<^verbatim>\<open>class Package\<close>: name, version, download URL template and the dependency map
  (kept as an association list).  The two properties read the host through
  \<^verbatim>\<open>platform.machine()\<close> and \<^verbatim>\<open>platform.system()\<close>; the host is a record
  passed explicitly.
\<close>

record Package =
  name :: string
  version :: string
  download_url :: string
  dependencies :: "(string \<times> string) list"

record host =
  machine :: string
  system_name :: string

subsection \<open>\<^verbatim>\<open>str.format\<close> with keyword arguments\<close>

text \<open>
  The replacement fields of \<^verbatim>\<open>str.format\<close>: \<^verbatim>\<open>{{\<close> and \<^verbatim>\<open>}}\<close> are literal
  braces, \<^verbatim>\<open>{field}\<close> is looked up in the keyword arguments.  An empty or numeric
  field is positional and there are no positional arguments (IndexError); an unknown
  name is a KeyError; a lone brace is a ValueError.  Fields with a conversion, a format
  specification, an attribute or an index (\<^verbatim>\<open>! : . [ ]\<close>) are not modelled.
\<close>

definition get_field :: "(string \<times> string) list \<Rightarrow> string \<Rightarrow> error + string" where
  "get_field kwargs f =
     (if list_all (\<lambda>c. c \<in> set ''0123456789'') f then Inl IndexError
      else if list_ex (\<lambda>c. c \<in> set ''!:.[]'') f then Inl (NotModelled f)
      else case map_of kwargs f of None \<Rightarrow> Inl (KeyError f) | Some v \<Rightarrow> Inr v)"

datatype format_mode = Literal | Field string

definition prepend :: "string \<Rightarrow> error + string \<Rightarrow> error + string" where
  "prepend v r = (case r of Inl e \<Rightarrow> Inl e | Inr s \<Rightarrow> Inr (v @ s))"

fun format_scan :: "(string \<times> string) list \<Rightarrow> format_mode \<Rightarrow> string \<Rightarrow> error + string" where
  "format_scan kwargs Literal [] = Inr []"
| "format_scan kwargs Literal (c # cs) =
     (if c = CHR ''{'' then
        (case cs of
           [] \<Rightarrow> Inl (ValueError ''Single { encountered in format string'')
         | d # ds \<Rightarrow>
             if d = CHR ''{'' then prepend [c] (format_scan kwargs Literal ds)
             else format_scan kwargs (Field []) cs)
      else if c = CHR ''}'' then
        (case cs of
           [] \<Rightarrow> Inl (ValueError ''Single } encountered in format string'')
         | d # ds \<Rightarrow>
             if d = CHR ''}'' then prepend [c] (format_scan kwargs Literal ds)
             else Inl (ValueError ''Single } encountered in format string''))
      else prepend [c] (format_scan kwargs Literal cs))"
| "format_scan kwargs (Field f) [] = Inl (ValueError ''expected } before end of string'')"
| "format_scan kwargs (Field f) (c # cs) =
     (if c = CHR ''}'' then
        (case get_field kwargs f of
           Inl e \<Rightarrow> Inl e
         | Inr v \<Rightarrow> prepend v (format_scan kwargs Literal cs))
      else if c = CHR ''{'' then Inl (ValueError ''unexpected { in field name'')
      else format_scan kwargs (Field (f @ [c])) cs)"

definition str_format :: "string \<Rightarrow> (string \<times> string) list \<Rightarrow> error + string" where
  "str_format template kwargs = format_scan kwargs Literal template"

subsection \<open>\<^verbatim>\<open>urlparse(...).path\<close>, \<^verbatim>\<open>unquote_plus\<close> and \<^verbatim>\<open>os.path.split\<close>\<close>

text \<open>
  Strings are byte strings here: a percent escape decodes to the one character with
  that code (Python decodes the bytes as UTF-8 afterwards).  \<^verbatim>\<open>urlsplit\<close>'s removal
  of control characters and its check of bracketed hosts are left out.
\<close>

definition scheme_chars :: string where
  "scheme_chars = ''abcdefghijklmnopqrstuvwxyzABCDEFGHIJKLMNOPQRSTUVWXYZ0123456789+-.''"

definition ascii_alpha :: "char \<Rightarrow> bool" where
  "ascii_alpha c = (c \<in> set ''abcdefghijklmnopqrstuvwxyzABCDEFGHIJKLMNOPQRSTUVWXYZ'')"

definition ascii_lower :: "char \<Rightarrow> char" where
  "ascii_lower c =
     (if 65 \<le> (of_char c :: nat) \<and> (of_char c :: nat) \<le> 90 then char_of ((of_char c :: nat) + 32) else c)"

definition uses_params :: "string list" where
  "uses_params = ['''', ''ftp'', ''hdl'', ''prospero'', ''http'', ''imap'', ''https'', ''shttp'',
     ''rtsp'', ''rtspu'', ''sip'', ''sips'', ''mms'', ''sftp'', ''tel'']"

definition split_scheme :: "string \<Rightarrow> string \<times> string" where
  "split_scheme url =
     (let s = takeWhile (\<lambda>c. c \<noteq> CHR '':'') url in
      if length s < length url \<and> s \<noteq> [] \<and> ascii_alpha (hd s) \<and> list_all (\<lambda>c. c \<in> set scheme_chars) s
      then (map ascii_lower s, drop (length s + 1) url)
      else ([], url))"

definition split_netloc :: "string \<Rightarrow> string" where
  "split_netloc url =
     (if take 2 url = ''//'' then dropWhile (\<lambda>c. c \<notin> set ''/?#'') (drop 2 url) else url)"

definition after_last_slash :: "string \<Rightarrow> string" where
  "after_last_slash p = rev (takeWhile (\<lambda>c. c \<noteq> CHR ''/'') (rev p))"

definition split_params :: "string \<Rightarrow> string" where
  "split_params url =
     (let tail = after_last_slash url;
          head = take (length url - length tail) url
      in head @ takeWhile (\<lambda>c. c \<noteq> CHR '';'') tail)"

definition urlparse_path :: "string \<Rightarrow> string" where
  "urlparse_path url0 =
     (let (scheme, url1) = split_scheme url0;
          url2 = split_netloc url1;
          url3 = takeWhile (\<lambda>c. c \<noteq> CHR ''#'') url2;
          url4 = takeWhile (\<lambda>c. c \<noteq> CHR ''?'') url3
      in if scheme \<in> set uses_params then split_params url4 else url4)"

definition hex_val :: "char \<Rightarrow> nat option" where
  "hex_val c =
     (let n = (of_char c :: nat) in
      if 48 \<le> n \<and> n \<le> 57 then Some (n - 48)
      else if 65 \<le> n \<and> n \<le> 70 then Some (n - 55)
      else if 97 \<le> n \<and> n \<le> 102 then Some (n - 87)
      else None)"

fun unquote :: "string \<Rightarrow> string" where
  "unquote [] = []"
| "unquote [c] = [c]"
| "unquote [c, d] = [c, d]"
| "unquote (c # h # l # cs) =
     (if c = CHR ''%'' then
        (case (hex_val h, hex_val l) of
           (Some a, Some b) \<Rightarrow> char_of (16 * a + b) # unquote cs
         | _ \<Rightarrow> c # unquote (h # l # cs))
      else c # unquote (h # l # cs))"

definition url_unquote_plus :: "string \<Rightarrow> string" where
  "url_unquote_plus s = unquote (map (\<lambda>c. if c = CHR ''+'' then CHR '' '' else c) s)"

definition all_slashes :: "string \<Rightarrow> bool" where
  "all_slashes s = list_all (\<lambda>c. c = CHR ''/'') s"

definition path_split :: "string \<Rightarrow> string \<times> string" where
  "path_split p =
     (let tail = after_last_slash p;
          head = take (length p - length tail) p
      in (if head \<noteq> [] \<and> \<not> all_slashes head
          then rev (dropWhile (\<lambda>c. c = CHR ''/'') (rev head)) else head, tail))"

subsection \<open>The two properties of a Package\<close>

definition resolved_download_url :: "host \<Rightarrow> Package \<Rightarrow> error + string" where
  "resolved_download_url h p =
     (let arch = machine h in
      str_format (download_url p)
        [(''Arch'', arch), (''Architecture'', arch), (''Name'', name p),
         (''System'', system_name h), (''Version'', version p)])"

definition source_archive_name :: "host \<Rightarrow> Package \<Rightarrow> error + string" where
  "source_archive_name h p =
     (case resolved_download_url h p of
        Inl e \<Rightarrow> Inl e
      | Inr url \<Rightarrow> Inr (snd (path_split (url_unquote_plus (urlparse_path url)))))"

section \<open>Log normalisation: \<^verbatim>\<open>LOG_STRIP_PATTERN\<close>\<close>

text \<open>
  \<^verbatim>\<open>LOG_STRIP_PATTERN = re_compile(r"^(?:[ \n]*\n)?((?:.|\n+.)*)(?:\n[ \n]*)?$")\<close>
  and its use \<^verbatim>\<open>LOG_STRIP_PATTERN.match(x).group(1)\<close>.  The pattern is a term of
  \<open>regex\<close>, and \<open>backtrack\<close> is a backtracking matcher in the order Python's
  \<^verbatim>\<open>re\<close> tries alternatives: it returns every way to match from a state, the
  preferred one first (\<open>*\<close>, \<open>+\<close> and \<open>?\<close> are greedy, the left alternative of
  \<open>|\<close> comes first).  A state is the position, the rest of the subject and the span
  of the one capturing group.  \<open>Dot\<close> excludes the newline (no DOTALL flag); \<open>Eol\<close>
  holds at the end and before a final newline (no MULTILINE flag).  An iteration of
  \<open>*\<close> that consumes nothing is not repeated.
\<close>

datatype regex =
    Lit char
  | Dot
  | CharSet "char list"
  | Bol
  | Eol
  | Seq regex regex
  | Alt regex regex
  | Star regex
  | Plus regex
  | Opt regex
  | Group regex

type_synonym mstate = "nat \<times> string \<times> (nat \<times> nat) option"

definition newline :: char where
  "newline = CHR 0x0A"

primrec star_iter :: "(mstate \<Rightarrow> mstate list) \<Rightarrow> nat \<Rightarrow> mstate \<Rightarrow> mstate list" where
  "star_iter body 0 st = [st]"
| "star_iter body (Suc n) st =
     concat (map (star_iter body n)
       (filter (\<lambda>st'. length (fst (snd st')) < length (fst (snd st))) (body st))) @ [st]"

primrec backtrack :: "regex \<Rightarrow> mstate \<Rightarrow> mstate list" where
  "backtrack (Lit c) st =
     (case st of (p, s, g) \<Rightarrow>
        (case s of [] \<Rightarrow> [] | x # xs \<Rightarrow> if x = c then [(Suc p, xs, g)] else []))"
| "backtrack Dot st =
     (case st of (p, s, g) \<Rightarrow>
        (case s of [] \<Rightarrow> [] | x # xs \<Rightarrow> if x \<noteq> newline then [(Suc p, xs, g)] else []))"
| "backtrack (CharSet cs) st =
     (case st of (p, s, g) \<Rightarrow>
        (case s of [] \<Rightarrow> [] | x # xs \<Rightarrow> if x \<in> set cs then [(Suc p, xs, g)] else []))"
| "backtrack Bol st = (case st of (p, s, g) \<Rightarrow> if p = 0 then [st] else [])"
| "backtrack Eol st = (case st of (p, s, g) \<Rightarrow> if s = [] \<or> s = [newline] then [st] else [])"
| "backtrack (Seq a b) st = concat (map (backtrack b) (backtrack a st))"
| "backtrack (Alt a b) st = backtrack a st @ backtrack b st"
| "backtrack (Star a) st = star_iter (backtrack a) (length (fst (snd st))) st"
| "backtrack (Plus a) st =
     concat (map (\<lambda>st'. star_iter (backtrack a) (length (fst (snd st'))) st') (backtrack a st))"
| "backtrack (Opt a) st = backtrack a st @ [st]"
| "backtrack (Group a) st =
     map (\<lambda>st'. (fst st', fst (snd st'), Some (fst st, fst st'))) (backtrack a st)"

definition re_match :: "regex \<Rightarrow> string \<Rightarrow> mstate option" where
  "re_match r s = (case backtrack r (0, s, None) of [] \<Rightarrow> None | m # _ \<Rightarrow> Some m)"

definition group1 :: "string \<Rightarrow> mstate \<Rightarrow> string option" where
  "group1 s m = (case snd (snd m) of None \<Rightarrow> None | Some (b, e) \<Rightarrow> Some (take (e - b) (drop b s)))"

definition blank_line_prefix :: regex where
  "blank_line_prefix = Seq (Star (CharSet [CHR '' '', newline])) (Lit newline)"

definition captured :: regex where
  "captured = Star (Alt Dot (Seq (Plus (Lit newline)) Dot))"

definition blank_suffix :: regex where
  "blank_suffix = Seq (Lit newline) (Star (CharSet [CHR '' '', newline]))"

definition LOG_STRIP_PATTERN :: regex where
  "LOG_STRIP_PATTERN =
     Seq Bol (Seq (Opt blank_line_prefix) (Seq (Group captured) (Seq (Opt blank_suffix) Eol)))"

definition log_strip :: "string \<Rightarrow> error + string" where
  "log_strip s =
     (case re_match LOG_STRIP_PATTERN s of
        None \<Rightarrow> Inl AssertionError
      | Some m \<Rightarrow> (case group1 s m of None \<Rightarrow> Inl AssertionError | Some g \<Rightarrow> Inr g))"

subsection \<open>What the pattern computes, written as list functions\<close>







section \<open>File system\<close>

type_synonym path = "string list"
type_synonym bytes = string

datatype entry = File nat bytes | Dir nat

type_synonym filesystem = "(path \<times> entry) list"

definition path_join :: "path \<Rightarrow> string \<Rightarrow> path" where
  "path_join p n = p @ [n]"

definition path_exists :: "filesystem \<Rightarrow> path \<Rightarrow> bool" where
  "path_exists fs p = (map_of fs p \<noteq> None)"

definition lstat_dev :: "filesystem \<Rightarrow> path \<Rightarrow> error + nat" where
  "lstat_dev fs p =
     (case map_of fs p of
        None \<Rightarrow> Inl (FileNotFoundError p)
      | Some (File d c) \<Rightarrow> Inr d
      | Some (Dir d) \<Rightarrow> Inr d)"

definition parent_dev :: "filesystem \<Rightarrow> path \<Rightarrow> error + nat" where
  "parent_dev fs p =
     (if p = [] then Inl (FileExistsError p)
      else case map_of fs (butlast p) of
        None \<Rightarrow> Inl (FileNotFoundError p)
      | Some (File d c) \<Rightarrow> Inl (NotADirectoryError p)
      | Some (Dir d) \<Rightarrow> Inr d)"

definition mkdir :: "path \<Rightarrow> filesystem \<Rightarrow> error + filesystem" where
  "mkdir p fs =
     (case map_of fs p of
        Some e \<Rightarrow> Inl (FileExistsError p)
      | None \<Rightarrow>
          (case parent_dev fs p of
             Inl e \<Rightarrow> Inl e
           | Inr d \<Rightarrow> Inr (AList.update p (Dir d) fs)))"

definition write_file :: "path \<Rightarrow> bytes \<Rightarrow> filesystem \<Rightarrow> error + filesystem" where
  "write_file p c fs =
     (case map_of fs p of
        Some (Dir d) \<Rightarrow> Inl (IsADirectoryError p)
      | Some (File d old) \<Rightarrow> Inr (AList.update p (File d c) fs)
      | None \<Rightarrow>
          (case parent_dev fs p of
             Inl e \<Rightarrow> Inl e
           | Inr d \<Rightarrow> Inr (AList.update p (File d c) fs)))"

definition link :: "path \<Rightarrow> path \<Rightarrow> filesystem \<Rightarrow> error + filesystem" where
  "link src dst fs =
     (case map_of fs src of
        None \<Rightarrow> Inl (FileNotFoundError src)
      | Some (Dir d) \<Rightarrow> Inl (PermissionError src)
      | Some (File d c) \<Rightarrow>
          (case map_of fs dst of
             Some e \<Rightarrow> Inl (FileExistsError dst)
           | None \<Rightarrow>
               (case parent_dev fs dst of
                  Inl e \<Rightarrow> Inl e
                | Inr d' \<Rightarrow>
                    if d' \<noteq> d then Inl (CrossDeviceLink src dst)
                    else Inr (AList.update dst (File d c) fs))))"

definition copy2 :: "path \<Rightarrow> path \<Rightarrow> filesystem \<Rightarrow> error + filesystem" where
  "copy2 src dst fs =
     (case map_of fs src of
        None \<Rightarrow> Inl (FileNotFoundError src)
      | Some (Dir d) \<Rightarrow> Inl (IsADirectoryError src)
      | Some (File d c) \<Rightarrow>
          (let dst' = (case map_of fs dst of Some (Dir d') \<Rightarrow> dst @ [last src] | _ \<Rightarrow> dst)
           in if dst' = src then Inl (SameFileError src)
              else write_file dst' c fs))"

definition children :: "filesystem \<Rightarrow> path \<Rightarrow> (string \<times> entry) list" where
  "children fs p = [(last q, e). (q, e) \<leftarrow> fs, q \<noteq> [] \<and> butlast q = p]"

definition is_dir :: "entry \<Rightarrow> bool" where
  "is_dir e = (case e of Dir d \<Rightarrow> True | File d c \<Rightarrow> False)"

lemma filter_length_strict:
  assumes "\<And>x. x \<in> set xs \<Longrightarrow> P x \<Longrightarrow> Q x" and "y \<in> set xs" and "Q y" and "\<not> P y"
  shows "length (filter P xs) < length (filter Q xs)"
proof -
  have "filter P xs = filter P (filter Q xs)"
    using assms(1) by (induction xs) auto
  moreover have "y \<in> set (filter Q xs)" using assms(2,3) by simp
  then have "length (filter P (filter Q xs)) < length (filter Q xs)"
    using assms(4) by (rule length_filter_less)
  ultimately show ?thesis by simp
qed

function walk :: "filesystem \<Rightarrow> path \<Rightarrow> (path \<times> string list \<times> string list) list" where
  "walk fs p =
     (p, map fst (filter (\<lambda>(n, e). is_dir e) (children fs p)),
         map fst (filter (\<lambda>(n, e). \<not> is_dir e) (children fs p)))
     # concat (map (\<lambda>n. walk fs (p @ [n]))
         (map fst (filter (\<lambda>(n, e). is_dir e) (children fs p))))"
  by pat_completeness auto
termination
proof (relation "measure (\<lambda>(fs, p). length (filter (\<lambda>(q, e). strict_prefix p q) fs))")
  show "wf (measure (\<lambda>(fs, p). length (filter (\<lambda>(q, e). strict_prefix p q) fs)))" by simp
next
  fix fs :: filesystem and p :: path and n :: string
  assume "n \<in> set (map fst (filter (\<lambda>(n, e). is_dir e) (children fs p)))"
  then obtain q e where qe: "(q, e) \<in> set fs" "q \<noteq> []" "butlast q = p" "last q = n"
    by (auto simp: children_def)
  then have q: "q = p @ [n]" by (metis append_butlast_last_id)
  have "length (filter (\<lambda>(q', e). strict_prefix (p @ [n]) q') fs)
      < length (filter (\<lambda>(q', e). strict_prefix p q') fs)"
  proof (rule filter_length_strict[where y = "(q, e)"])
    fix x assume "x \<in> set fs" "case x of (q', e) \<Rightarrow> strict_prefix (p @ [n]) q'"
    then show "case x of (q', e) \<Rightarrow> strict_prefix p q'"
      by (auto simp: strict_prefix_def prefix_def)
  next
    show "(q, e) \<in> set fs" by (rule qe(1))
    show "case (q, e) of (q', e) \<Rightarrow> strict_prefix p q'" using q by (simp add: strict_prefix_def prefix_def)
    show "\<not> (case (q, e) of (q', e) \<Rightarrow> strict_prefix (p @ [n]) q')" using q by simp
  qed
  then show "((fs, p @ [n]), (fs, p)) \<in> measure (\<lambda>(fs, p). length (filter (\<lambda>(q, e). strict_prefix p q) fs))"
    by simp
qed

definition os_walk :: "filesystem \<Rightarrow> path \<Rightarrow> (path \<times> string list \<times> string list) list" where
  "os_walk fs root = (case map_of fs root of Some (Dir d) \<Rightarrow> walk fs root | _ \<Rightarrow> [])"


section \<open>Platforms\<close>

datatype PackageType = RPM | DEB

datatype Platform =
    amzn1_x86_64 | amzn2_x86_64 | el7_x86_64 | ubuntu_1604_x86_64
  | ubuntu_1804_x86_64 | ubuntu_1810_x86_64 | ubuntu_1904_x86_64

fun os_name :: "Platform \<Rightarrow> string" where
  "os_name amzn1_x86_64 = ''amzn1''"
| "os_name amzn2_x86_64 = ''amzn2''"
| "os_name el7_x86_64 = ''el7''"
| "os_name ubuntu_1604_x86_64 = ''ubuntu-xenial''"
| "os_name ubuntu_1804_x86_64 = ''ubuntu-bionic''"
| "os_name ubuntu_1810_x86_64 = ''ubuntu-cosmic''"
| "os_name ubuntu_1904_x86_64 = ''ubuntu-disco''"

fun arch :: "Platform \<Rightarrow> string" where
  "arch amzn1_x86_64 = ''x86_64''"
| "arch amzn2_x86_64 = ''x86_64''"
| "arch el7_x86_64 = ''x86_64''"
| "arch ubuntu_1604_x86_64 = ''amd64''"
| "arch ubuntu_1804_x86_64 = ''amd64''"
| "arch ubuntu_1810_x86_64 = ''amd64''"
| "arch ubuntu_1904_x86_64 = ''amd64''"

fun source_docker_image :: "Platform \<Rightarrow> string" where
  "source_docker_image amzn1_x86_64 = ''amazonlinux:1''"
| "source_docker_image amzn2_x86_64 = ''amazonlinux:2''"
| "source_docker_image el7_x86_64 = ''centos:7''"
| "source_docker_image ubuntu_1604_x86_64 = ''ubuntu:16.04''"
| "source_docker_image ubuntu_1804_x86_64 = ''ubuntu:18.04''"
| "source_docker_image ubuntu_1810_x86_64 = ''ubuntu:18.10''"
| "source_docker_image ubuntu_1904_x86_64 = ''ubuntu:19.04''"

fun package_type :: "Platform \<Rightarrow> PackageType" where
  "package_type amzn1_x86_64 = RPM"
| "package_type amzn2_x86_64 = RPM"
| "package_type el7_x86_64 = RPM"
| "package_type ubuntu_1604_x86_64 = DEB"
| "package_type ubuntu_1804_x86_64 = DEB"
| "package_type ubuntu_1810_x86_64 = DEB"
| "package_type ubuntu_1904_x86_64 = DEB"

definition dockerfile_template :: "Platform \<Rightarrow> string" where
  "dockerfile_template pf = os_name pf @ ''.dockerfile''"

section \<open>Build units and the world they run in\<close>

datatype SourcePackageState = InProgress | Downloaded | Failed

type_synonym Image = string

record PackageBuild =
  package :: Package
  platform :: Platform
  build_root :: path
  package_root :: path
  package_dir :: path
  build_dir :: path
  remove_build_dir :: bool
  staged :: bool
  image' :: "Image option"

record response =
  content_length :: "error + int"
  stream :: "bytes list"

datatype log_level = DEBUG | INFO | ERROR

record log_entry =
  stream_line :: "string option"
  errorDetail_message :: "string option"

datatype docker_call =
    ImagesBuild path path "(string \<times> string) list"
  | ContainersRun Image path

record world =
  host_of :: host
  cwd :: path
  fs :: filesystem
  source_state :: "string \<Rightarrow> SourcePackageState option"
  urlopen_log :: "(string \<times> string) list"
  docker_log :: "docker_call list"
  log_lines :: "(log_level \<times> string) list"

definition source_archive_path :: "host \<Rightarrow> PackageBuild \<Rightarrow> error + path" where
  "source_archive_path h u =
     (case source_archive_name h (package u) of
        Inl e \<Rightarrow> Inl e
      | Inr a \<Rightarrow> Inr (path_join (package_dir u) a))"

section \<open>The download transfer\<close>

definition READ_BUFFER_SIZE :: nat where
  "READ_BUFFER_SIZE = 2 ^ 20"

definition readinto :: "bytes list \<Rightarrow> bytes \<times> bytes list" where
  "readinto st =
     (case st of
        [] \<Rightarrow> ([], [])
      | c # cs \<Rightarrow>
          (take READ_BUFFER_SIZE c,
           if READ_BUFFER_SIZE < length c then drop READ_BUFFER_SIZE c # cs else cs))"

lemma READ_BUFFER_SIZE_pos: "0 < READ_BUFFER_SIZE"
  by (simp add: READ_BUFFER_SIZE_def)

lemma chunk_decreases:
  fixes c :: bytes
  assumes "0 < n"
  shows "sum_list (map length (if n < length c then drop n c # cs else cs))
           + length (if n < length c then drop n c # cs else cs)
       < sum_list (map length (c # cs)) + length (c # cs)"
  using assms by auto

lemma readinto_decreases:
  assumes "length (fst (readinto st)) \<noteq> 0"
  shows "sum_list (map length (snd (readinto st))) + length (snd (readinto st))
       < sum_list (map length st) + length st"
proof (cases st)
  case Nil
  with assms show ?thesis by (simp add: readinto_def)
next
  case (Cons c cs)
  have "snd (readinto st) = (if READ_BUFFER_SIZE < length c then drop READ_BUFFER_SIZE c # cs else cs)"
    unfolding Cons readinto_def by (simp only: list.case snd_conv)
  then show ?thesis
    unfolding Cons using chunk_decreases[OF READ_BUFFER_SIZE_pos, of c cs] by (simp only:)
qed

function read_loop :: "int \<Rightarrow> bytes list \<Rightarrow> nat \<Rightarrow> bytes \<Rightarrow> error option \<times> nat \<times> bytes" where
  "read_loop clen st total_read fd =
     (if int total_read < clen then
        (if length (fst (readinto st)) = 0
         then (Some (ValueError ''Failed to read entire contents''), total_read, fd)
         else read_loop clen (snd (readinto st))
                (total_read + length (fst (readinto st))) (fd @ fst (readinto st)))
      else (None, total_read, fd))"
  by pat_completeness auto
termination
  apply (relation "measure (\<lambda>(clen, st, total_read, fd). sum_list (map length st) + length st)")
   apply simp
  apply (simp only: in_measure prod.case)
  apply (erule readinto_decreases)
  done

datatype 'a outcome = Returns 'a | Raises error | Blocks

definition download_transfer ::
  "PackageBuild \<Rightarrow> error + response \<Rightarrow> world \<Rightarrow> error option \<times> world" where
  "download_transfer u net w =
     (case (if path_exists (fs w) (package_dir u) then Inr (fs w) else mkdir (package_dir u) (fs w)) of
        Inl e \<Rightarrow> (Some e, w)
      | Inr fs1 \<Rightarrow>
     (case resolved_download_url (host_of w) (package u) of
        Inl e \<Rightarrow> (Some e, w\<lparr>fs := fs1\<rparr>)
      | Inr url \<Rightarrow>
     (case net of
        Inl e \<Rightarrow> (Some e, w\<lparr>fs := fs1, urlopen_log := urlopen_log w @ [(name (package u), url)]\<rparr>)
      | Inr req \<Rightarrow>
     (case source_archive_path (host_of w) u of
        Inl e \<Rightarrow> (Some e, w\<lparr>fs := fs1, urlopen_log := urlopen_log w @ [(name (package u), url)]\<rparr>)
      | Inr archive \<Rightarrow>
     (case write_file archive [] fs1 of
        Inl e \<Rightarrow> (Some e, w\<lparr>fs := fs1, urlopen_log := urlopen_log w @ [(name (package u), url)]\<rparr>)
      | Inr fs2 \<Rightarrow>
     (case content_length req of
        Inl e \<Rightarrow> (Some e, w\<lparr>fs := fs2, urlopen_log := urlopen_log w @ [(name (package u), url)]\<rparr>)
      | Inr clen \<Rightarrow>
          (case read_loop clen (stream req) 0 [] of
             (r, total_read, written) \<Rightarrow>
               (r, w\<lparr>fs := AList.update archive
                            (File (case map_of fs2 archive of Some (File d c) \<Rightarrow> d | _ \<Rightarrow> 0) written) fs2,
                      urlopen_log := urlopen_log w @ [(name (package u), url)]\<rparr>))))))))"

definition download_source_package ::
  "PackageBuild \<Rightarrow> error + response \<Rightarrow> world \<Rightarrow> bool outcome \<times> world" where
  "download_source_package u net w =
     (case source_state w (name (package u)) of
        Some Downloaded \<Rightarrow> (Returns False, w)
      | Some InProgress \<Rightarrow> (Blocks, w)
      | _ \<Rightarrow>
          (case download_transfer u net
                  (w\<lparr>source_state := (source_state w)(name (package u) \<mapsto> InProgress)\<rparr>) of
             (None, w') \<Rightarrow>
               (Returns True, w'\<lparr>source_state := (source_state w')(name (package u) \<mapsto> Downloaded)\<rparr>)
           | (Some e, w') \<Rightarrow>
               (Raises e, w'\<lparr>source_state := (source_state w')(name (package u) \<mapsto> Failed)\<rparr>)))"

section \<open>Staging, building and exporting a unit\<close>

datatype copy_strategy = HardLink | FullCopy

definition copy_function :: "copy_strategy \<Rightarrow> path \<Rightarrow> path \<Rightarrow> filesystem \<Rightarrow> error + filesystem" where
  "copy_function s = (case s of HardLink \<Rightarrow> link | FullCopy \<Rightarrow> copy2)"

fun copy_files ::
  "copy_strategy \<Rightarrow> path \<Rightarrow> path \<Rightarrow> string list \<Rightarrow> filesystem \<Rightarrow> error option \<times> filesystem" where
  "copy_files s source_dir target_dir [] fsys = (None, fsys)"
| "copy_files s source_dir target_dir (filename # rest) fsys =
     (case copy_function s (path_join source_dir filename) (path_join target_dir filename) fsys of
        Inl e \<Rightarrow> (Some e, fsys)
      | Inr fsys' \<Rightarrow> copy_files s source_dir target_dir rest fsys')"

fun make_dirs :: "path \<Rightarrow> string list \<Rightarrow> filesystem \<Rightarrow> error option \<times> filesystem" where
  "make_dirs target_dir [] fsys = (None, fsys)"
| "make_dirs target_dir (subdir # rest) fsys =
     (case mkdir (path_join target_dir subdir) fsys of
        Inl e \<Rightarrow> (Some e, fsys)
      | Inr fsys' \<Rightarrow> make_dirs target_dir rest fsys')"

fun copy_walk ::
  "copy_strategy \<Rightarrow> path \<Rightarrow> path \<Rightarrow> (path \<times> string list \<times> string list) list \<Rightarrow> filesystem
     \<Rightarrow> error option \<times> filesystem" where
  "copy_walk s package_source bdir [] fsys = (None, fsys)"
| "copy_walk s package_source bdir ((source_dir, subdirs, filenames) # rest) fsys =
     (case copy_files s source_dir (bdir @ drop (length package_source) source_dir) filenames fsys of
        (Some e, fs1) \<Rightarrow> (Some e, fs1)
      | (None, fs1) \<Rightarrow>
          (case make_dirs (bdir @ drop (length package_source) source_dir) subdirs fs1 of
             (Some e, fs2) \<Rightarrow> (Some e, fs2)
           | (None, fs2) \<Rightarrow> copy_walk s package_source bdir rest fs2))"

definition abspath :: "path \<Rightarrow> string \<Rightarrow> path" where
  "abspath working_dir n = working_dir @ [n]"

definition staged_archive :: "host \<Rightarrow> PackageBuild \<Rightarrow> error + path" where
  "staged_archive h u =
     (case source_archive_name h (package u) of
        Inl e \<Rightarrow> Inl e
      | Inr a \<Rightarrow> Inr (path_join (build_dir u) a))"

definition staged_dockerfile :: "PackageBuild \<Rightarrow> path" where
  "staged_dockerfile u = path_join (build_dir u) ''Dockerfile''"

definition buildargs :: "host \<Rightarrow> PackageBuild \<Rightarrow> error + (string \<times> string) list" where
  "buildargs h u =
     (case source_archive_name h (package u) of
        Inl e \<Rightarrow> Inl e
      | Inr a \<Rightarrow>
          Inr [(''ARCH'', arch (platform u)), (''OS_NAME'', os_name (platform u)),
               (''PACKAGE'', name (package u)), (''REGION'', ''us-west-2''), (''REL'', ''0''),
               (''SOURCE_ARCHIVE'', a), (''VERSION'', version (package u))])"

definition stage_files ::
  "error + response \<Rightarrow> PackageBuild \<Rightarrow> world \<Rightarrow> unit outcome \<times> PackageBuild \<times> world" where
  "stage_files net u w0 =
     (case download_source_package u net w0 of
        (Raises e, w) \<Rightarrow> (Raises e, u, w)
      | (Blocks, w) \<Rightarrow> (Blocks, u, w)
      | (Returns downloaded, w) \<Rightarrow>
     (case lstat_dev (fs w) (abspath (cwd w) (name (package u))) of
        Inl e \<Rightarrow> (Raises e, u, w)
      | Inr package_dev \<Rightarrow>
     (case lstat_dev (fs w) (build_dir u) of
        Inl e \<Rightarrow> (Raises e, u, w)
      | Inr build_dev \<Rightarrow>
     (let s = (if package_dev = build_dev then HardLink else FullCopy);
          w1 = w\<lparr>log_lines := log_lines w @
                 [(DEBUG, if package_dev = build_dev then ''using link to copy files''
                          else ''using copy2 to copy files'')]\<rparr>;
          package_source = abspath (cwd w) (name (package u))
      in
     (case copy_walk s package_source (build_dir u) (os_walk (fs w) package_source) (fs w) of
        (Some e, fs1) \<Rightarrow> (Raises e, u, w1\<lparr>fs := fs1\<rparr>)
      | (None, fs1) \<Rightarrow>
     (case source_archive_path (host_of w) u of
        Inl e \<Rightarrow> (Raises e, u, w1\<lparr>fs := fs1\<rparr>)
      | Inr archive \<Rightarrow>
     (case staged_archive (host_of w) u of
        Inl e \<Rightarrow> (Raises e, u, w1\<lparr>fs := fs1\<rparr>)
      | Inr target \<Rightarrow>
     (case copy_function s archive target fs1 of
        Inl e \<Rightarrow> (Raises e, u, w1\<lparr>fs := fs1\<rparr>)
      | Inr fs2 \<Rightarrow>
     (case copy_function s (abspath (cwd w) (dockerfile_template (platform u)))
             (staged_dockerfile u) fs2 of
        Inl e \<Rightarrow> (Raises e, u, w1\<lparr>fs := fs2\<rparr>)
      | Inr fs3 \<Rightarrow> (Returns (), u\<lparr>staged := True\<rparr>, w1\<lparr>fs := fs3\<rparr>))))))))))"

datatype build_result = BuildOk Image string | BuildFails "log_entry list" | BuildApiError

datatype run_result = RunOk string | RunFails "bytes option" "bytes option" | RunApiError

definition log_stripped ::
  "log_level \<Rightarrow> string \<Rightarrow> string option \<Rightarrow> (log_level \<times> string) list
     \<Rightarrow> error option \<times> (log_level \<times> string) list" where
  "log_stripped level indent text ls =
     (case text of
        None \<Rightarrow> (None, ls)
      | Some s \<Rightarrow>
          (case log_strip s of
             Inl e \<Rightarrow> (Some e, ls)
           | Inr g \<Rightarrow> (None, ls @ [(level, indent @ g)])))"

fun log_build_log ::
  "log_entry list \<Rightarrow> (log_level \<times> string) list \<Rightarrow> error option \<times> (log_level \<times> string) list" where
  "log_build_log [] ls = (None, ls)"
| "log_build_log (log_entry # rest) ls =
     (case log_stripped INFO ''    '' (stream_line log_entry) ls of
        (Some e, ls1) \<Rightarrow> (Some e, ls1)
      | (None, ls1) \<Rightarrow>
          (case log_stripped ERROR ''   '' (errorDetail_message log_entry) ls1 of
             (Some e, ls2) \<Rightarrow> (Some e, ls2)
           | (None, ls2) \<Rightarrow> log_build_log rest ls2))"

definition failure_line :: "string \<Rightarrow> PackageBuild \<Rightarrow> string" where
  "failure_line what u =
     ''Failed to '' @ what @ '' '' @ name (package u) @ ''-'' @ version (package u) @ '' (''
       @ os_name (platform u) @ '' '' @ arch (platform u) @ '')''"

definition build :: "build_result \<Rightarrow> PackageBuild \<Rightarrow> world \<Rightarrow> unit outcome \<times> PackageBuild \<times> world" where
  "build res u w =
     (if \<not> staged u then (Raises (ValueError ''Files have not been staged for building''), u, w)
      else
        (case buildargs (host_of w) u of
           Inl e \<Rightarrow> (Raises e, u, w)
         | Inr args \<Rightarrow>
             (let w1 = w\<lparr>docker_log := docker_log w @
                          [ImagesBuild (staged_dockerfile u) (build_dir u) args]\<rparr>
              in case res of
                   BuildOk img build_logs \<Rightarrow>
                     (Returns (), u\<lparr>image' := Some img\<rparr>,
                      w1\<lparr>log_lines := log_lines w1 @ [(DEBUG, ''Build logs: '' @ build_logs)]\<rparr>)
                 | BuildFails build_log \<Rightarrow>
                     (case log_build_log build_log (log_lines w1 @ [(ERROR, failure_line ''build'' u)]) of
                        (Some e, ls) \<Rightarrow> (Raises e, u, w1\<lparr>log_lines := ls\<rparr>)
                      | (None, ls) \<Rightarrow> (Raises BuildError, u, w1\<lparr>log_lines := ls\<rparr>))
                 | BuildApiError \<Rightarrow> (Raises APIError, u, w1))))"

definition truthy :: "bytes option \<Rightarrow> string option" where
  "truthy b = (case b of None \<Rightarrow> None | Some s \<Rightarrow> if s = [] then None else Some s)"

definition export ::
  "path \<Rightarrow> run_result \<Rightarrow> PackageBuild \<Rightarrow> world \<Rightarrow> unit outcome \<times> PackageBuild \<times> world" where
  "export dest_root res u w =
     (case image' u of
        None \<Rightarrow> (Raises (ValueError ''Image has not been built''), u, w)
      | Some img \<Rightarrow>
          (let w1 = w\<lparr>docker_log := docker_log w @ [ContainersRun img dest_root]\<rparr>
           in case res of
                RunOk logs \<Rightarrow>
                  (Returns (), u, w1\<lparr>log_lines := log_lines w1 @ [(DEBUG, ''Build logs: '' @ logs)]\<rparr>)
              | RunFails out err \<Rightarrow>
                  (case log_stripped INFO ''    '' (truthy out)
                          (log_lines w1 @ [(ERROR, failure_line ''export'' u)]) of
                     (Some e, ls) \<Rightarrow> (Raises e, u, w1\<lparr>log_lines := ls\<rparr>)
                   | (None, ls) \<Rightarrow>
                       (case log_stripped ERROR ''    '' (truthy err) ls of
                          (Some e, ls') \<Rightarrow> (Raises e, u, w1\<lparr>log_lines := ls'\<rparr>)
                        | (None, ls') \<Rightarrow> (Raises ContainerError, u, w1\<lparr>log_lines := ls'\<rparr>)))
              | RunApiError \<Rightarrow> (Raises APIError, u, w1)))"

datatype operation =
    Stage "error + response"
  | Build build_result
  | Export path run_result

definition run_op :: "operation \<Rightarrow> PackageBuild \<times> world \<Rightarrow> unit outcome \<times> PackageBuild \<times> world" where
  "run_op op s =
     (case op of
        Stage net \<Rightarrow> stage_files net (fst s) (snd s)
      | Build res \<Rightarrow> build res (fst s) (snd s)
      | Export dest_root res \<Rightarrow> export dest_root res (fst s) (snd s))"

fun run_ops :: "operation list \<Rightarrow> PackageBuild \<times> world \<Rightarrow> PackageBuild \<times> world" where
  "run_ops [] s = s"
| "run_ops (op # ops) s = run_ops ops (snd (run_op op s))"

definition new_PackageBuild ::
  "Package \<Rightarrow> Platform \<Rightarrow> path \<Rightarrow> path \<Rightarrow> bool \<Rightarrow> string \<Rightarrow> PackageBuild" where
  "new_PackageBuild pkg pf broot proot remove tmpname =
     \<lparr>package = pkg, platform = pf, build_root = broot, package_root = proot,
      package_dir = path_join proot (name pkg), build_dir = path_join broot tmpname,
      remove_build_dir = remove, staged = False, image' = None\<rparr>"

section \<open>A concrete unit and world for the examples\<close>

definition example_unit :: PackageBuild where
  "example_unit =
     \<lparr>package = \<lparr>name = ''foo'', version = ''1.0'',
                  download_url = ''http://x/{Name}-{Version}.tar.gz'', dependencies = []\<rparr>,
      platform = el7_x86_64, build_root = [''w'', ''builds''], package_root = [''w'', ''packages''],
      package_dir = [''w'', ''packages'', ''foo''], build_dir = [''w'', ''builds'', ''foo-1.0-el7''],
      remove_build_dir = False, staged = False, image' = None\<rparr>"

definition example_world :: world where
  "example_world =
     \<lparr>host_of = \<lparr>machine = ''x86_64'', system_name = ''Linux''\<rparr>, cwd = [''w''],
      fs = [([], Dir 1), ([''w''], Dir 1), ([''w'', ''foo''], Dir 1),
            ([''w'', ''foo'', ''a.spec''], File 1 ''spec''),
            ([''w'', ''foo'', ''sub''], Dir 1),
            ([''w'', ''foo'', ''sub'', ''p.patch''], File 1 ''patch''),
            ([''w'', ''packages''], Dir 1), ([''w'', ''builds''], Dir 1),
            ([''w'', ''builds'', ''foo-1.0-el7''], Dir 1),
            ([''w'', ''el7.dockerfile''], File 1 ''FROM centos:7'')],
      source_state = Map.empty, urlopen_log = [], docker_log = [], log_lines = []\<rparr>"

section \<open>Properties of the Package descriptor\<close>

lemma after_last_slash_no_slash: "CHR ''/'' \<notin> set (after_last_slash p)"
proof -
  have "\<forall>c \<in> set (takeWhile (\<lambda>c. c \<noteq> CHR ''/'') (rev p)). c \<noteq> CHR ''/''"
    by (metis (mono_tags, lifting) set_takeWhileD)
  then show ?thesis by (auto simp: after_last_slash_def)
qed

lemma source_archive_name_no_slash:
  "source_archive_name h p = Inr a \<Longrightarrow> CHR ''/'' \<notin> set a"
  by (auto simp: source_archive_name_def path_split_def Let_def after_last_slash_no_slash
      split: sum.splits)



section \<open>Properties of the log normalisation\<close>































section \<open>Properties of the download transfer\<close>

lemma readinto_concat: "fst (readinto st) @ concat (snd (readinto st)) = concat st"
  by (cases st) (auto simp: readinto_def)

lemma read_loop_result:
  "read_loop clen st t fd = (r, t', fd') \<Longrightarrow>
     fd' = fd @ take (t' - t) (concat st) \<and> t \<le> t' \<and> t' \<le> t + length (concat st)
     \<and> (r = None \<longrightarrow> clen \<le> int t')
     \<and> (r \<noteq> None \<longrightarrow> r = Some (ValueError ''Failed to read entire contents'') \<and> int t' < clen)"
proof (induction clen st t fd arbitrary: r t' fd' rule: read_loop.induct)
  case (1 clen st total_read fd)
  show ?case
  proof (cases "int total_read < clen")
    case False
    with "1.prems" show ?thesis by simp
  next
    case True
    show ?thesis
    proof (cases "length (fst (readinto st)) = 0")
      case True
      with \<open>int total_read < clen\<close> "1.prems" show ?thesis by auto
    next
      case False
      let ?b = "fst (readinto st)"
      from False \<open>int total_read < clen\<close> "1.prems"
      have rec: "read_loop clen (snd (readinto st)) (total_read + length ?b) (fd @ ?b) = (r, t', fd')"
        by (simp del: read_loop.simps add: read_loop.simps[of clen st total_read fd])
      from "1.IH"[OF \<open>int total_read < clen\<close> False rec]
      have ih: "fd' = (fd @ ?b) @ take (t' - (total_read + length ?b)) (concat (snd (readinto st)))"
        "total_read + length ?b \<le> t'"
        "t' \<le> total_read + length ?b + length (concat (snd (readinto st)))"
        "r = None \<longrightarrow> clen \<le> int t'"
        "r \<noteq> None \<longrightarrow> r = Some (ValueError ''Failed to read entire contents'') \<and> int t' < clen"
        by auto
      have c: "concat st = ?b @ concat (snd (readinto st))" by (simp add: readinto_concat)
      have "take (t' - total_read) (concat st)
          = ?b @ take (t' - (total_read + length ?b)) (concat (snd (readinto st)))"
        using ih(2) by (simp add: c)
      moreover have "length (concat st) = length ?b + length (concat (snd (readinto st)))"
        using arg_cong[OF c, of length] by simp
      ultimately show ?thesis using ih by simp
    qed
  qed
qed


lemma read_loop_short:
  assumes "int (length (concat st)) < clen"
  shows "fst (read_loop clen st 0 []) = Some (ValueError ''Failed to read entire contents'')"
proof -
  obtain r t' fd' where r: "read_loop clen st 0 [] = (r, t', fd')"
    by (cases "read_loop clen st 0 []") auto
  from read_loop_result[OF r] assms have "r \<noteq> None" by auto
  with read_loop_result[OF r] r show ?thesis by simp
qed

lemma download_transfer_short:
  assumes "net = Inr req" and "content_length req = Inr clen"
    and "int (length (concat (stream req))) < clen"
  shows "fst (download_transfer u net w) \<noteq> None"
proof -
  obtain t' fd' where "read_loop clen (stream req) 0 []
      = (Some (ValueError ''Failed to read entire contents''), t', fd')"
    using read_loop_short[OF assms(3)] by (cases "read_loop clen (stream req) 0 []") auto
  then show ?thesis
    using assms(1,2) by (simp add: download_transfer_def split: sum.splits)
qed

lemma download_source_package_outcome:
  assumes "download_source_package u net w = (r, w')"
  shows "(r = Returns True \<longrightarrow> source_state w' (name (package u)) = Some Downloaded)
       \<and> (r = Returns False \<longrightarrow> source_state w (name (package u)) = Some Downloaded \<and> w' = w)
       \<and> (r = Blocks \<longrightarrow> source_state w (name (package u)) = Some InProgress \<and> w' = w)
       \<and> (\<forall>e. r = Raises e \<longrightarrow> source_state w' (name (package u)) = Some Failed)"
  using assms
  by (auto simp: download_source_package_def split: option.splits SourcePackageState.splits prod.splits)

lemma download_source_package_short:
  assumes "download_source_package u net w = (r, w')"
    and "source_state w (name (package u)) \<noteq> Some Downloaded"
    and "source_state w (name (package u)) \<noteq> Some InProgress"
    and "net = Inr req" and "content_length req = Inr clen"
    and "int (length (concat (stream req))) < clen"
  shows "(\<exists>e. r = Raises e) \<and> source_state w' (name (package u)) = Some Failed"
proof -
  let ?w1 = "w\<lparr>source_state := (source_state w)(name (package u) \<mapsto> InProgress)\<rparr>"
  from download_transfer_short[OF assms(4,5,6), of u ?w1]
  obtain e w2 where "download_transfer u net ?w1 = (Some e, w2)"
    by (cases "download_transfer u net ?w1") auto
  with assms(1,2,3) show ?thesis
    by (auto simp: download_source_package_def split: option.splits SourcePackageState.splits)
qed


lemma example_url:
  "resolved_download_url (host_of example_world) (package example_unit) = Inr ''http://x/foo-1.0.tar.gz''"
  unfolding example_world_def example_unit_def by code_simp
lemma example_archive:
  "source_archive_name (host_of example_world) (package example_unit) = Inr ''foo-1.0.tar.gz''"
  unfolding example_world_def example_unit_def by code_simp
lemma example_fields:
  "name (package example_unit) = ''foo''"
  "package_dir example_unit = [''w'', ''packages'', ''foo'']"
  "source_state example_world = Map.empty"
  "urlopen_log example_world = []"
  "fs example_world = [([], Dir 1), ([''w''], Dir 1), ([''w'', ''foo''], Dir 1),
            ([''w'', ''foo'', ''a.spec''], File 1 ''spec''),
            ([''w'', ''foo'', ''sub''], Dir 1),
            ([''w'', ''foo'', ''sub'', ''p.patch''], File 1 ''patch''),
            ([''w'', ''packages''], Dir 1), ([''w'', ''builds''], Dir 1),
            ([''w'', ''builds'', ''foo-1.0-el7''], Dir 1),
            ([''w'', ''el7.dockerfile''], File 1 ''FROM centos:7'')]"
  by (simp_all add: example_unit_def example_world_def)
lemma c: "fst (download_source_package example_unit
        (Inr \<lparr>content_length = Inr 5, stream = [''0123456789'']\<rparr>) example_world) = Returns True"
  by (simp add: download_source_package_def download_transfer_def example_url example_archive example_fields
      path_exists_def mkdir_def parent_dev_def write_file_def source_archive_path_def path_join_def
      readinto_def READ_BUFFER_SIZE_def)

text \<open>
  Claim C5, as amended.  The read loop stops without error only when the bytes read have
  reached the declared length: on success the count is at least the declared length (and
  equal to it when the stream holds no more than was declared), and the file holds
  exactly the bytes read.  A stream that ends before the declared length makes the loop
  raise, and then the owning call of \<open>download_source_package\<close> raises and leaves the
  package \<open>Failed\<close>.
\<close>

theorem transfer_validates_content_length:
  "(read_loop clen st 0 [] = (None, n_read, data) \<longrightarrow>
      clen \<le> int n_read \<and> data = take n_read (concat st)
      \<and> (int (length (concat st)) \<le> clen \<longrightarrow> int n_read = clen))
   \<and> (int (length (concat st)) < clen \<longrightarrow>
      fst (read_loop clen st 0 []) = Some (ValueError ''Failed to read entire contents''))
   \<and> (download_source_package u (Inr req) w = (r, w')
      \<and> source_state w (name (package u)) \<noteq> Some Downloaded
      \<and> source_state w (name (package u)) \<noteq> Some InProgress
      \<and> content_length req = Inr clen'
      \<and> int (length (concat (stream req))) < clen' \<longrightarrow>
      (\<exists>e. r = Raises e) \<and> source_state w' (name (package u)) = Some Failed)"
proof (intro conjI impI)
  assume a: "read_loop clen st 0 [] = (None, n_read, data)"
  from read_loop_result[OF a] show "clen \<le> int n_read" by simp
  from read_loop_result[OF a] show "data = take n_read (concat st)" by simp
  assume "int (length (concat st)) \<le> clen"
  with read_loop_result[OF a] show "int n_read = clen" by simp
next
  assume "int (length (concat st)) < clen"
  then show "fst (read_loop clen st 0 []) = Some (ValueError ''Failed to read entire contents'')"
    by (rule read_loop_short)
next
  assume a: "download_source_package u (Inr req) w = (r, w')
      \<and> source_state w (name (package u)) \<noteq> Some Downloaded
      \<and> source_state w (name (package u)) \<noteq> Some InProgress
      \<and> content_length req = Inr clen'
      \<and> int (length (concat (stream req))) < clen'"
  then have "(\<exists>e. r = Raises e) \<and> source_state w' (name (package u)) = Some Failed"
    using download_source_package_short[of u "Inr req" w r w' req clen'] by simp
  then show "\<exists>e. r = Raises e" and "source_state w' (name (package u)) = Some Failed" by simp_all
qed

theorem transfer_validates_content_length_witness:
  "read_loop 6 [''abc'', ''def''] 0 [] = (None, 6, ''abcdef'')
   \<and> fst (read_loop 7 [''abc'', ''def''] 0 []) = Some (ValueError ''Failed to read entire contents'')
   \<and> (\<exists>e. fst (download_source_package example_unit
              (Inr \<lparr>content_length = Inr 7, stream = [''abc'', ''def'']\<rparr>) example_world) = Raises e)
   \<and> source_state (snd (download_source_package example_unit
              (Inr \<lparr>content_length = Inr 7, stream = [''abc'', ''def'']\<rparr>) example_world)) ''foo''
       = Some Failed"
proof -
  let ?req = "\<lparr>content_length = Inr 7, stream = [''abc'', ''def'']\<rparr>"
  let ?res = "download_source_package example_unit (Inr ?req) example_world"
  have ok: "read_loop 6 [''abc'', ''def''] 0 [] = (None, 6, ''abcdef'')"
    by (simp add: readinto_def READ_BUFFER_SIZE_def)
  have pre: "?res = (fst ?res, snd ?res)
      \<and> source_state example_world (name (package example_unit)) \<noteq> Some Downloaded
      \<and> source_state example_world (name (package example_unit)) \<noteq> Some InProgress
      \<and> content_length ?req = Inr 7
      \<and> int (length (concat (stream ?req))) < 7"
    by (simp add: example_fields)
  have short: "int (length (concat [''abc'', ''def''])) < 7" by simp
  note inst = transfer_validates_content_length[of 7 "[''abc'', ''def'']" 6 "''abcdef''"
      example_unit ?req example_world "fst ?res" "snd ?res" 7]
  from inst short have a: "fst (read_loop 7 [''abc'', ''def''] 0 []) = Some (ValueError ''Failed to read entire contents'')"
    by blast
  from inst pre have b: "(\<exists>e. fst ?res = Raises e) \<and> source_state (snd ?res) (name (package example_unit)) = Some Failed"
    by blast
  from ok a b show ?thesis by (simp add: example_fields)
qed

text \<open>
  The count is not checked for equality: a read that delivers more than was declared, or
  a declared length below zero, ends the loop without error and the download succeeds.
\<close>

theorem transfer_accepts_longer_stream:
  "read_loop 5 [''0123456789''] 0 [] = (None, 10, ''0123456789'')
   \<and> read_loop (- 1) [''abc''] 0 [] = (None, 0, [])
   \<and> fst (download_source_package example_unit
        (Inr \<lparr>content_length = Inr 5, stream = [''0123456789'']\<rparr>) example_world) = Returns True"
proof -
  have a: "read_loop 5 [''0123456789''] 0 [] = (None, 10, ''0123456789'')"
    by (simp add: readinto_def READ_BUFFER_SIZE_def)
  have b: "read_loop (- 1) [''abc''] 0 [] = (None, 0, [])" by simp
  have c: "fst (download_source_package example_unit
        (Inr \<lparr>content_length = Inr 5, stream = [''0123456789'']\<rparr>) example_world) = Returns True"
    by (simp add: download_source_package_def download_transfer_def example_url example_archive
        example_fields path_exists_def mkdir_def parent_dev_def write_file_def source_archive_path_def
        path_join_def readinto_def READ_BUFFER_SIZE_def)
  from a b c show ?thesis by simp
qed

end
